theory Spec2Isabelle
  imports Complex_Main
begin

section \<open>Numbers\<close>

text \<open>
  A float is modelled by the real number it stands for, and arithmetic on floats is exact:
  rounding, overflow and the infinities of IEEE 754 are outside this model. A price sent by
  the data provider is such a number. A value computed by the indicator library can also be
  \<open>NaN\<close>: the library pads the start of every series with it, and \<open>last_valid_value\<close>
  tests for it. So a numpy float64 is a number or \<open>NaN\<close>.
\<close>

datatype pyfloat = NaN | Num real

fun isnan :: "pyfloat \<Rightarrow> bool" where
  "isnan NaN = True"
| "isnan (Num x) = False"

text \<open>Comparisons with \<open>NaN\<close> are false, whichever side it is on.\<close>

fun flt :: "pyfloat \<Rightarrow> pyfloat \<Rightarrow> bool" where
  "flt (Num a) (Num b) = (a < b)"
| "flt _ _ = False"

definition fgt :: "pyfloat \<Rightarrow> pyfloat \<Rightarrow> bool" where
  "fgt a b = flt b a"

text \<open>Arithmetic propagates \<open>NaN\<close>.\<close>

fun fadd :: "pyfloat \<Rightarrow> pyfloat \<Rightarrow> pyfloat" where
  "fadd (Num a) (Num b) = Num (a + b)"
| "fadd _ _ = NaN"

fun fsub :: "pyfloat \<Rightarrow> pyfloat \<Rightarrow> pyfloat" where
  "fsub (Num a) (Num b) = Num (a - b)"
| "fsub _ _ = NaN"

fun fmul :: "pyfloat \<Rightarrow> pyfloat \<Rightarrow> pyfloat" where
  "fmul (Num a) (Num b) = Num (a * b)"
| "fmul _ _ = NaN"

section \<open>Configuration (class Config)\<close>

definition SYMBOL :: string where "SYMBOL = ''GBP/USD''"

definition RISK_REWARD_RATIO :: real where "RISK_REWARD_RATIO = 1.5"
definition ATR_PERIOD :: nat where "ATR_PERIOD = 10"
definition ATR_SL_MULTIPLIER :: real where "ATR_SL_MULTIPLIER = 0.8"
definition ATR_TP_MULTIPLIER :: real where
  "ATR_TP_MULTIPLIER = ATR_SL_MULTIPLIER * RISK_REWARD_RATIO"

definition EMA_FAST :: nat where "EMA_FAST = 12"
definition EMA_SLOW :: nat where "EMA_SLOW = 26"
definition RSI_PERIOD :: nat where "RSI_PERIOD = 14"
definition RSI_OVERBOUGHT :: real where "RSI_OVERBOUGHT = 70"
definition RSI_OVERSOLD :: real where "RSI_OVERSOLD = 30"
definition MACD_FAST :: nat where "MACD_FAST = 12"
definition MACD_SLOW :: nat where "MACD_SLOW = 26"
definition MACD_SIGNAL :: nat where "MACD_SIGNAL = 9"

section \<open>Market data\<close>

text \<open>
  One candle, as \<open>fetch_forex_data\<close> builds it. The time stamp is kept as the text the
  provider sent; the engine never reads it.
\<close>

record candle =
  time :: string
  "open" :: real
  high :: real
  low :: real
  close :: real
  volume :: real

text \<open>
  \<open>fetch_forex_data\<close> and \<open>fetch_current_price\<close> wrap one HTTP request each and catch
  every exception themselves: the first answers with a candle list, oldest first, empty on
  any failure; the second with a float or \<open>None\<close>. \<open>generate_signal\<close> makes three such
  requests, and a feed holds the three answers.
\<close>

record feed =
  candles_15m :: "candle list"
  candles_1h :: "candle list"
  current_price :: "real option"

section \<open>The indicator library\<close>

text \<open>
  TA-Lib is not part of the repository. Its five functions are parameters of the model.
  Each returns its arrays, or raises (\<open>Inl\<close> with the message of the exception).
\<close>

type_synonym series = "pyfloat list"

record talib =
  EMA :: "series \<Rightarrow> nat \<Rightarrow> string + series"
  RSI :: "series \<Rightarrow> nat \<Rightarrow> string + series"
  MACD :: "series \<Rightarrow> nat \<Rightarrow> nat \<Rightarrow> nat \<Rightarrow> string + (series \<times> series \<times> series)"
  ATR :: "series \<Rightarrow> series \<Rightarrow> series \<Rightarrow> nat \<Rightarrow> string + series"
  BBANDS :: "series \<Rightarrow> nat \<Rightarrow> int \<Rightarrow> int \<Rightarrow> int \<Rightarrow> string + (series \<times> series \<times> series)"

section \<open>Indicator calculation\<close>

text \<open>
  The loop of \<open>last_valid_value\<close>: \<open>for i in range(len(arr)-1, -1, -1)\<close>.
  \<open>scan_back arr n\<close> looks at the indices \<open>n-1\<close>, \<open>n-2\<close>, ..., \<open>0\<close> in this order.
\<close>

fun scan_back :: "series \<Rightarrow> nat \<Rightarrow> pyfloat option" where
  "scan_back arr 0 = None"
| "scan_back arr (Suc i) =
     (if \<not> isnan (arr ! i) then Some (arr ! i) else scan_back arr i)"

definition last_valid_value :: "series option \<Rightarrow> pyfloat option" where
  "last_valid_value arr =
     (case arr of
        None \<Rightarrow> None
      | Some xs \<Rightarrow> if length xs = 0 then None else scan_back xs (length xs))"

text \<open>The dictionary \<open>calculate_indicators\<close> returns; a value is a float or \<open>None\<close>.\<close>

record snapshot =
  ema_fast :: "pyfloat option"
  ema_slow :: "pyfloat option"
  rsi :: "pyfloat option"
  macd :: "pyfloat option"
  macd_signal :: "pyfloat option"
  macd_hist :: "pyfloat option"
  atr :: "pyfloat option"
  upper_bb :: "pyfloat option"
  middle_bb :: "pyfloat option"
  lower_bb :: "pyfloat option"
  price :: "pyfloat option"

text \<open>
  An exception raised by a call ends the enclosing computation: \<open>Inl e\<close> is passed on,
  \<open>Inr x\<close> is handed to the rest.
\<close>

definition and_then :: "'e + 'a \<Rightarrow> ('a \<Rightarrow> 'e + 'b) \<Rightarrow> 'e + 'b" where
  "and_then m k = (case m of Inl e \<Rightarrow> Inl e | Inr x \<Rightarrow> k x)"

text \<open>
  \<open>calculate_indicators\<close>: \<open>Inr None\<close> is the value \<open>None\<close> the function returns on a short
  list, \<open>Inl e\<close> an exception of the library, which the function does not catch.
\<close>

definition calculate_indicators :: "talib \<Rightarrow> candle list \<Rightarrow> string + snapshot option" where
  "calculate_indicators ta candles =
     (if length candles < 50 then Inr None
      else
        let closes = map (\<lambda>c. Num (close c)) candles;
            highs = map (\<lambda>c. Num (high c)) candles;
            lows = map (\<lambda>c. Num (low c)) candles
        in and_then (EMA ta closes EMA_FAST) (\<lambda>ema_fast_arr.
           and_then (EMA ta closes EMA_SLOW) (\<lambda>ema_slow_arr.
           and_then (RSI ta closes RSI_PERIOD) (\<lambda>rsi_arr.
           and_then (MACD ta closes MACD_FAST MACD_SLOW MACD_SIGNAL)
             (\<lambda>(macd_arr, macd_signal_arr, macd_hist_arr).
           and_then (ATR ta highs lows closes ATR_PERIOD) (\<lambda>atr_arr.
           and_then (BBANDS ta closes 20 2 2 0) (\<lambda>(upper_arr, middle_arr, lower_arr).
             Inr (Some \<lparr>
               ema_fast = last_valid_value (Some ema_fast_arr),
               ema_slow = last_valid_value (Some ema_slow_arr),
               rsi = last_valid_value (Some rsi_arr),
               macd = last_valid_value (Some macd_arr),
               macd_signal = last_valid_value (Some macd_signal_arr),
               macd_hist = last_valid_value (Some macd_hist_arr),
               atr = last_valid_value (Some atr_arr),
               upper_bb = last_valid_value (Some upper_arr),
               middle_bb = last_valid_value (Some middle_arr),
               lower_bb = last_valid_value (Some lower_arr),
               price = (if length closes > 0 then Some (last closes) else None) \<rparr>))))))))"

section \<open>Trading strategy\<close>

text \<open>
  \<open>any(v is None for v in indicators.values())\<close>, over the eleven keys of the dictionary.
\<close>

definition any_none :: "snapshot \<Rightarrow> bool" where
  "any_none s \<longleftrightarrow>
     ema_fast s = None \<or> ema_slow s = None \<or> rsi s = None \<or> macd s = None \<or>
     macd_signal s = None \<or> macd_hist s = None \<or> atr s = None \<or> upper_bb s = None \<or>
     middle_bb s = None \<or> lower_bb s = None \<or> price s = None"

text \<open>
  A snapshot is unavailable when \<open>calculate_indicators\<close> returned \<open>None\<close> or a dictionary
  with a value that is \<open>None\<close>: the two tests \<open>generate_signal\<close> makes before it votes.
\<close>

definition unavailable :: "snapshot option \<Rightarrow> bool" where
  "unavailable r = (case r of None \<Rightarrow> True | Some s \<Rightarrow> any_none s)"

text \<open>
  The two counters \<open>bullish_signals\<close> and \<open>bearish_signals\<close> are a pair of Python
  integers, in this order. Each numbered block of the strategy updates the pair. A dictionary
  value is read with \<open>the\<close>; the blocks run only after \<open>any_none\<close> has been found false
  for both dictionaries.
\<close>

type_synonym votes = "int \<times> int"

text \<open>1. Trend analysis (EMAs): one vote from the 15-minute chart, two from the hourly.\<close>

definition trend_analysis :: "snapshot \<Rightarrow> snapshot \<Rightarrow> votes \<Rightarrow> votes" where
  "trend_analysis indicators_15m indicators_1h v =
     (let (bullish, bearish) = v;
          (bullish, bearish) =
            (if fgt (the (ema_fast indicators_15m)) (the (ema_slow indicators_15m))
             then (bullish + 1, bearish) else (bullish, bearish + 1));
          (bullish, bearish) =
            (if fgt (the (ema_fast indicators_1h)) (the (ema_slow indicators_1h))
             then (bullish + 2, bearish) else (bullish, bearish + 2))
      in (bullish, bearish))"

text \<open>2. Momentum analysis (RSI).\<close>

definition momentum_analysis :: "snapshot \<Rightarrow> snapshot \<Rightarrow> votes \<Rightarrow> votes" where
  "momentum_analysis indicators_15m indicators_1h v =
     (let (bullish, bearish) = v;
          (bullish, bearish) =
            (if flt (the (rsi indicators_15m)) (Num RSI_OVERSOLD) then (bullish + 1, bearish)
             else if fgt (the (rsi indicators_15m)) (Num RSI_OVERBOUGHT) then (bullish, bearish + 1)
             else (bullish, bearish));
          (bullish, bearish) =
            (if flt (the (rsi indicators_1h)) (Num RSI_OVERSOLD) then (bullish + 1, bearish)
             else if fgt (the (rsi indicators_1h)) (Num RSI_OVERBOUGHT) then (bullish, bearish + 1)
             else (bullish, bearish))
      in (bullish, bearish))"

text \<open>3. MACD analysis.\<close>

definition macd_analysis :: "snapshot \<Rightarrow> snapshot \<Rightarrow> votes \<Rightarrow> votes" where
  "macd_analysis indicators_15m indicators_1h v =
     (let (bullish, bearish) = v;
          (bullish, bearish) =
            (if fgt (the (macd_hist indicators_15m)) (Num 0) \<and>
                fgt (the (macd indicators_15m)) (the (macd_signal indicators_15m))
             then (bullish + 1, bearish)
             else if flt (the (macd_hist indicators_15m)) (Num 0) \<and>
                flt (the (macd indicators_15m)) (the (macd_signal indicators_15m))
             then (bullish, bearish + 1)
             else (bullish, bearish));
          (bullish, bearish) =
            (if fgt (the (macd_hist indicators_1h)) (Num 0) \<and>
                fgt (the (macd indicators_1h)) (the (macd_signal indicators_1h))
             then (bullish + 1, bearish)
             else if flt (the (macd_hist indicators_1h)) (Num 0) \<and>
                flt (the (macd indicators_1h)) (the (macd_signal indicators_1h))
             then (bullish, bearish + 1)
             else (bullish, bearish))
      in (bullish, bearish))"

text \<open>4. Price action (Bollinger Bands), on the 15-minute chart only.\<close>

definition price_action :: "snapshot \<Rightarrow> real \<Rightarrow> votes \<Rightarrow> votes" where
  "price_action indicators_15m current v =
     (let (bullish, bearish) = v in
        if flt (Num current) (the (lower_bb indicators_15m)) then (bullish + 1, bearish)
        else if fgt (Num current) (the (upper_bb indicators_15m)) then (bullish, bearish + 1)
        else (bullish, bearish))"

text \<open>The counters after the four blocks, starting from \<open>(0, 0)\<close>.\<close>

definition signals :: "snapshot \<Rightarrow> snapshot \<Rightarrow> real \<Rightarrow> votes" where
  "signals indicators_15m indicators_1h current =
     price_action indicators_15m current
       (macd_analysis indicators_15m indicators_1h
         (momentum_analysis indicators_15m indicators_1h
           (trend_analysis indicators_15m indicators_1h (0, 0))))"

text \<open>
  \<open>confidence\<close>: the integer \<open>0\<close> when there is no vote, else the true division of two
  integers, times 100.
\<close>

definition confidence :: "votes \<Rightarrow> real" where
  "confidence v =
     (let (bullish, bearish) = v; total_signals = bullish + bearish
      in if total_signals = 0 then 0
         else real_of_int \<bar>bullish - bearish\<bar> / real_of_int total_signals * 100)"

text \<open>
  The second component of the result. The source builds a text; the formatted numbers are
  kept as numbers here, in the order in which the text shows them.
\<close>

datatype strategy =
    Message string
  | Bullish_confluence pyfloat pyfloat pyfloat pyfloat real
  | Bearish_confluence pyfloat pyfloat pyfloat pyfloat real
  | Consolidating pyfloat pyfloat

text \<open>The tuple \<open>generate_signal\<close> returns: signal, strategy, price, take profit, stop loss.\<close>

type_synonym signal = "string \<times> strategy \<times> pyfloat \<times> pyfloat \<times> pyfloat"

definition direction :: "signal \<Rightarrow> string" where
  "direction r = (case r of (d, s, p, tp, sl) \<Rightarrow> d)"

definition entry_price :: "signal \<Rightarrow> pyfloat" where
  "entry_price r = (case r of (d, s, p, tp, sl) \<Rightarrow> p)"

definition tp_price :: "signal \<Rightarrow> pyfloat" where
  "tp_price r = (case r of (d, s, p, tp, sl) \<Rightarrow> tp)"

definition sl_price :: "signal \<Rightarrow> pyfloat" where
  "sl_price r = (case r of (d, s, p, tp, sl) \<Rightarrow> sl)"

text \<open>The three prices of a result: entry, take profit, stop loss.\<close>

definition levels :: "signal \<Rightarrow> pyfloat \<times> pyfloat \<times> pyfloat" where
  "levels r = (entry_price r, tp_price r, sl_price r)"

text \<open>
  The strategy logic of \<open>generate_signal\<close>, from the two counters to the returned tuple
  (the part after both dictionaries were found complete).
\<close>

definition strategy_logic :: "snapshot \<Rightarrow> snapshot \<Rightarrow> real \<Rightarrow> signal" where
  "strategy_logic indicators_15m indicators_1h current =
     (let (bullish_signals, bearish_signals) = signals indicators_15m indicators_1h current;
          conf = confidence (bullish_signals, bearish_signals)
      in if bullish_signals > bearish_signals \<and> conf > 30 then
           let atr_value = the (atr indicators_15m);
               sl = fsub (Num current) (fmul atr_value (Num ATR_SL_MULTIPLIER));
               tp = fadd (Num current) (fmul atr_value (Num ATR_TP_MULTIPLIER))
           in (''BUY'',
               Bullish_confluence (the (ema_fast indicators_15m)) (the (ema_slow indicators_15m))
                 (the (rsi indicators_1h)) (the (macd_hist indicators_15m)) conf,
               Num current, tp, sl)
         else if bearish_signals > bullish_signals \<and> conf > 30 then
           let atr_value = the (atr indicators_15m);
               sl = fadd (Num current) (fmul atr_value (Num ATR_SL_MULTIPLIER));
               tp = fsub (Num current) (fmul atr_value (Num ATR_TP_MULTIPLIER))
           in (''SELL'',
               Bearish_confluence (the (ema_fast indicators_15m)) (the (ema_slow indicators_15m))
                 (the (rsi indicators_1h)) (the (macd_hist indicators_15m)) conf,
               Num current, tp, sl)
         else
           (''HOLD'',
            Consolidating (the (rsi indicators_15m)) (the (middle_bb indicators_15m)),
            Num current, Num current, Num current))"

text \<open>
  The body of the \<open>try\<close> block. The price is asked for only after both dictionaries
  exist. The calls of the library inside \<open>calculate_indicators\<close> are the only statements of
  the block that can raise: the two fetch functions catch their own exceptions, and the
  division of the confidence is guarded.
\<close>

definition try_body :: "talib \<Rightarrow> feed \<Rightarrow> string + signal" where
  "try_body ta f =
     (if candles_15m f = [] \<or> candles_1h f = [] then
        Inr (''ERROR'', Message ''Failed to fetch market data'', Num 0, Num 0, Num 0)
      else
        and_then (calculate_indicators ta (candles_15m f)) (\<lambda>indicators_15m.
        and_then (calculate_indicators ta (candles_1h f)) (\<lambda>indicators_1h.
          if indicators_15m = None \<or> indicators_1h = None then
            Inr (''ANALYZING'', Message ''Not enough data to calculate indicators'',
                 Num 0, Num 0, Num 0)
          else
            case current_price f of
              None \<Rightarrow>
                Inr (''ERROR'', Message ''Failed to fetch current price'', Num 0, Num 0, Num 0)
            | Some current \<Rightarrow>
                if any_none (the indicators_15m) \<or> any_none (the indicators_1h) then
                  Inr (''ANALYZING'', Message ''Calculating indicators...'',
                       Num current, Num 0, Num 0)
                else
                  Inr (strategy_logic (the indicators_15m) (the indicators_1h) current))))"

text \<open>
  \<open>generate_signal\<close>: the \<open>try\<close> block, and the handler \<open>except Exception as e\<close>,
  which turns every exception into a result. The line the handler writes to the log is not
  part of the result and is left out.
\<close>

definition generate_signal :: "talib \<Rightarrow> feed \<Rightarrow> signal" where
  "generate_signal ta f =
     (case try_body ta f of
        Inr r \<Rightarrow> r
      | Inl e \<Rightarrow> (''ERROR'', Message (''System error: '' @ e), Num 0, Num 0, Num 0))"

section \<open>Example data\<close>

text \<open>
  Concrete inputs on which the results below are evaluated: a candle whose four prices are
  one number, and a stand-in for the library that answers from a table. The table gives, for
  the last closing price of a chart, the value each series ends with (\<open>None\<close> for a series
  that is \<open>NaN\<close> throughout).
\<close>

definition flat_candle :: "real \<Rightarrow> candle" where
  "flat_candle c =
     \<lparr> time = ''2024-01-02 10:00:00'', open = c, high = c, low = c,
       close = c, volume = 0 \<rparr>"

definition padded :: "pyfloat option \<Rightarrow> series" where
  "padded v = (case v of None \<Rightarrow> [NaN, NaN] | Some x \<Rightarrow> [NaN, NaN, x])"

definition table_talib :: "(pyfloat \<Rightarrow> snapshot) \<Rightarrow> talib" where
  "table_talib tab =
     \<lparr> EMA = (\<lambda>closes n.
         Inr (padded (if n = EMA_FAST then ema_fast (tab (last closes))
                      else ema_slow (tab (last closes))))),
       RSI = (\<lambda>closes n. Inr (padded (rsi (tab (last closes))))),
       MACD = (\<lambda>closes fast slow sig.
         Inr (padded (macd (tab (last closes))), padded (macd_signal (tab (last closes))),
              padded (macd_hist (tab (last closes))))),
       ATR = (\<lambda>highs lows closes n. Inr (padded (atr (tab (last closes))))),
       BBANDS = (\<lambda>closes n up dn ma.
         Inr (padded (upper_bb (tab (last closes))), padded (middle_bb (tab (last closes))),
              padded (lower_bb (tab (last closes))))) \<rparr>"

text \<open>A library whose every call raises.\<close>

definition raising_talib :: talib where
  "raising_talib =
     \<lparr> EMA = (\<lambda>closes n. Inl ''inputs are all NaN''),
       RSI = (\<lambda>closes n. Inl ''inputs are all NaN''),
       MACD = (\<lambda>closes fast slow sig. Inl ''inputs are all NaN''),
       ATR = (\<lambda>highs lows closes n. Inl ''inputs are all NaN''),
       BBANDS = (\<lambda>closes n up dn ma. Inl ''inputs are all NaN'') \<rparr>"

text \<open>
  A bullish scenario: both charts have the fast average above the slow one, the 15-minute RSI is oversold, the 15-minute MACD is positive and above its signal
  line, and the price 1.2500 is below the lower band 1.2550. The 15-minute chart closes at
  1.2510, the hourly one at 1.2520.
\<close>

definition bull_15m :: snapshot where
  "bull_15m =
     \<lparr> ema_fast = Some (Num 1.2650), ema_slow = Some (Num 1.2600), rsi = Some (Num 25),
       macd = Some (Num 0.0010), macd_signal = Some (Num 0.0004),
       macd_hist = Some (Num 0.0006), atr = Some (Num 0.0020),
       upper_bb = Some (Num 1.2750), middle_bb = Some (Num 1.2650),
       lower_bb = Some (Num 1.2550), price = Some (Num 1.2510) \<rparr>"

definition bull_1h :: snapshot where
  "bull_1h =
     \<lparr> ema_fast = Some (Num 1.2650), ema_slow = Some (Num 1.2600), rsi = Some (Num 50),
       macd = Some (Num 0), macd_signal = Some (Num 0),
       macd_hist = Some (Num 0), atr = Some (Num 0.0050),
       upper_bb = Some (Num 1.2800), middle_bb = Some (Num 1.2650),
       lower_bb = Some (Num 1.2500), price = Some (Num 1.2520) \<rparr>"

definition bull_talib :: talib where
  "bull_talib = table_talib (\<lambda>c. if c = Num 1.2510 then bull_15m else bull_1h)"

definition bull_feed :: feed where
  "bull_feed =
     \<lparr> candles_15m = replicate 50 (flat_candle 1.2510),
       candles_1h = replicate 50 (flat_candle 1.2520),
       current_price = Some 1.2500 \<rparr>"

text \<open>
  The mirrored scenario: fast averages below the slow ones, the 15-minute RSI overbought, the
  15-minute MACD negative and below its signal line, the price 1.2800 above the upper band.
\<close>

definition bear_15m :: snapshot where
  "bear_15m =
     \<lparr> ema_fast = Some (Num 1.2600), ema_slow = Some (Num 1.2650), rsi = Some (Num 75),
       macd = Some (Num (- 0.0010)), macd_signal = Some (Num (- 0.0004)),
       macd_hist = Some (Num (- 0.0006)), atr = Some (Num 0.0020),
       upper_bb = Some (Num 1.2750), middle_bb = Some (Num 1.2650),
       lower_bb = Some (Num 1.2550), price = Some (Num 1.2510) \<rparr>"

definition bear_1h :: snapshot where
  "bear_1h =
     \<lparr> ema_fast = Some (Num 1.2600), ema_slow = Some (Num 1.2650), rsi = Some (Num 50),
       macd = Some (Num 0), macd_signal = Some (Num 0),
       macd_hist = Some (Num 0), atr = Some (Num 0.0050),
       upper_bb = Some (Num 1.2800), middle_bb = Some (Num 1.2650),
       lower_bb = Some (Num 1.2500), price = Some (Num 1.2520) \<rparr>"

definition bear_talib :: talib where
  "bear_talib = table_talib (\<lambda>c. if c = Num 1.2510 then bear_15m else bear_1h)"

definition bear_feed :: feed where
  "bear_feed =
     \<lparr> candles_15m = replicate 50 (flat_candle 1.2510),
       candles_1h = replicate 50 (flat_candle 1.2520),
       current_price = Some 1.2800 \<rparr>"

text \<open>
  A tie: the hourly chart votes bullish twice, the 15-minute chart votes bearish with its
  averages and with an overbought RSI; the price 1.2650 is inside the bands.
\<close>

definition tie_15m :: snapshot where
  "tie_15m =
     bear_15m \<lparr> macd := Some (Num 0), macd_signal := Some (Num 0), macd_hist := Some (Num 0) \<rparr>"

definition tie_talib :: talib where
  "tie_talib = table_talib (\<lambda>c. if c = Num 1.2510 then tie_15m else bull_1h)"

definition tie_feed :: feed where
  "tie_feed = bull_feed \<lparr> current_price := Some 1.2650 \<rparr>"

text \<open>
  Feeds with a failure: ten candles on each chart and no price; a 15-minute chart whose RSI
  series is \<open>NaN\<close> throughout, once with a price and once without.
\<close>

definition short_feed :: feed where
  "short_feed =
     \<lparr> candles_15m = replicate 10 (flat_candle 1.2510),
       candles_1h = replicate 10 (flat_candle 1.2520),
       current_price = None \<rparr>"

definition norsi_15m :: snapshot where
  "norsi_15m = bull_15m \<lparr> rsi := None \<rparr>"

definition norsi_talib :: talib where
  "norsi_talib = table_talib (\<lambda>c. if c = Num 1.2510 then norsi_15m else bull_1h)"

definition noprice_feed :: feed where
  "noprice_feed = bull_feed \<lparr> current_price := None \<rparr>"

text \<open>The bullish scenario with the fast average equal to the slow one on both charts.\<close>

definition flat_15m :: snapshot where
  "flat_15m = bull_15m \<lparr> ema_fast := Some (Num 1.26) \<rparr>"

definition flat_1h :: snapshot where
  "flat_1h = bull_1h \<lparr> ema_fast := Some (Num 1.26) \<rparr>"


text \<open>A feed whose 15-minute request failed.\<close>

definition empty_feed :: feed where
  "empty_feed = bull_feed \<lparr> candles_15m := [] \<rparr>"

section \<open>Auxiliary facts\<close>

lemma fgt_irrefl: "\<not> fgt x x"
  by (cases x) (simp_all add: fgt_def)

lemma scan_back_None:
  "scan_back xs n = None \<longleftrightarrow> (\<forall>j<n. isnan (xs ! j))"
  by (induction n) (auto simp: less_Suc_eq)

lemma scan_back_Some:
  "scan_back xs n = Some v \<Longrightarrow>
     \<exists>i<n. xs ! i = v \<and> \<not> isnan v \<and> (\<forall>j. i < j \<and> j < n \<longrightarrow> isnan (xs ! j))"
proof (induction n)
  case 0
  then show ?case by simp
next
  case (Suc n)
  show ?case
  proof (cases "isnan (xs ! n)")
    case True
    with Suc.prems have "scan_back xs n = Some v" by simp
    from Suc.IH[OF this] obtain i where i: "i < n" "xs ! i = v" "\<not> isnan v"
      "\<forall>j. i < j \<and> j < n \<longrightarrow> isnan (xs ! j)" by blast
    have "\<forall>j. i < j \<and> j < Suc n \<longrightarrow> isnan (xs ! j)"
      using i(4) True by (auto simp: less_Suc_eq)
    with i show ?thesis by (intro exI[of _ i]) auto
  next
    case False
    with Suc.prems have "xs ! n = v" by simp
    with False show ?thesis by (intro exI[of _ n]) auto
  qed
qed

lemma trend_analysis_total:
  "trend_analysis i15 i1h (b, s) = (b', s') \<Longrightarrow> b' + s' = b + s + 3 \<and> b \<le> b' \<and> s \<le> s'"
  by (auto simp: trend_analysis_def split: if_splits)

lemma momentum_analysis_total:
  "momentum_analysis i15 i1h (b, s) = (b', s') \<Longrightarrow>
     b + s \<le> b' + s' \<and> b' + s' \<le> b + s + 2 \<and> b \<le> b' \<and> s \<le> s'"
  by (auto simp: momentum_analysis_def split: if_splits)

lemma macd_analysis_total:
  "macd_analysis i15 i1h (b, s) = (b', s') \<Longrightarrow>
     b + s \<le> b' + s' \<and> b' + s' \<le> b + s + 2 \<and> b \<le> b' \<and> s \<le> s'"
  by (auto simp: macd_analysis_def split: if_splits)

lemma price_action_total:
  "price_action i15 p (b, s) = (b', s') \<Longrightarrow>
     b + s \<le> b' + s' \<and> b' + s' \<le> b + s + 1 \<and> b \<le> b' \<and> s \<le> s'"
  by (auto simp: price_action_def split: if_splits)

lemma signals_bounds:
  assumes "signals i15 i1h p = (b, s)"
  shows "3 \<le> b + s \<and> b + s \<le> 8 \<and> 0 \<le> b \<and> 0 \<le> s"
proof -
  obtain b1 s1 where t: "trend_analysis i15 i1h (0, 0) = (b1, s1)" by fastforce
  obtain b2 s2 where m: "momentum_analysis i15 i1h (b1, s1) = (b2, s2)" by fastforce
  obtain b3 s3 where c: "macd_analysis i15 i1h (b2, s2) = (b3, s3)" by fastforce
  have p: "price_action i15 p (b3, s3) = (b, s)"
    using assms t m c by (simp add: signals_def)
  show ?thesis
    using trend_analysis_total[OF t] momentum_analysis_total[OF m]
      macd_analysis_total[OF c] price_action_total[OF p] by linarith
qed

lemma confidence_formula:
  "0 \<le> b \<Longrightarrow> 0 \<le> s \<Longrightarrow> b + s \<noteq> 0 \<Longrightarrow>
     confidence (b, s) = \<bar>real_of_int b - real_of_int s\<bar> / (real_of_int b + real_of_int s) * 100"
  by (simp add: confidence_def)

lemma confidence_range:
  assumes "0 \<le> b" "0 \<le> s"
  shows "0 \<le> confidence (b, s) \<and> confidence (b, s) \<le> 100"
proof (cases "b + s = 0")
  case True
  then show ?thesis by (simp add: confidence_def)
next
  case False
  define q where "q = real_of_int \<bar>b - s\<bar> / real_of_int (b + s)"
  have pos: "0 < real_of_int (b + s)" using assms False by simp
  have "real_of_int \<bar>b - s\<bar> \<le> real_of_int (b + s)" using assms by simp
  then have "q \<le> 1"
    unfolding q_def using pos by (simp add: divide_le_eq_1)
  moreover have "0 \<le> q"
    unfolding q_def using pos by simp
  moreover have "confidence (b, s) = q * 100"
    using False by (simp add: confidence_def q_def)
  ultimately show ?thesis by simp
qed

lemma confidence_tie: "confidence (b, b) = 0"
  by (simp add: confidence_def)

lemma calculate_indicators_short:
  "length candles < 50 \<Longrightarrow> calculate_indicators ta candles = Inr None"
  by (simp add: calculate_indicators_def)

lemma calculate_indicators_Some:
  "calculate_indicators ta candles = Inr (Some s) \<Longrightarrow> 50 \<le> length candles"
  by (rule ccontr) (simp add: calculate_indicators_def)

lemma generate_signal_complete:
  assumes "calculate_indicators ta (candles_15m f) = Inr (Some i15)"
    and "calculate_indicators ta (candles_1h f) = Inr (Some i1h)"
    and "\<not> any_none i15" and "\<not> any_none i1h"
    and "current_price f = Some p"
  shows "generate_signal ta f = strategy_logic i15 i1h p"
proof -
  have "candles_15m f \<noteq> []" "candles_1h f \<noteq> []"
    using calculate_indicators_Some[OF assms(1)] calculate_indicators_Some[OF assms(2)]
    by auto
  then show ?thesis
    using assms by (simp add: generate_signal_def try_body_def and_then_def)
qed

lemma strategy_logic_cases:
  assumes "signals i15 i1h p = (b, s)"
  shows "strategy_logic i15 i1h p =
     (if b > s \<and> confidence (b, s) > 30 then
        (''BUY'',
         Bullish_confluence (the (ema_fast i15)) (the (ema_slow i15)) (the (rsi i1h))
           (the (macd_hist i15)) (confidence (b, s)),
         Num p, fadd (Num p) (fmul (the (atr i15)) (Num ATR_TP_MULTIPLIER)),
         fsub (Num p) (fmul (the (atr i15)) (Num ATR_SL_MULTIPLIER)))
      else if s > b \<and> confidence (b, s) > 30 then
        (''SELL'',
         Bearish_confluence (the (ema_fast i15)) (the (ema_slow i15)) (the (rsi i1h))
           (the (macd_hist i15)) (confidence (b, s)),
         Num p, fsub (Num p) (fmul (the (atr i15)) (Num ATR_TP_MULTIPLIER)),
         fadd (Num p) (fmul (the (atr i15)) (Num ATR_SL_MULTIPLIER)))
      else (''HOLD'', Consolidating (the (rsi i15)) (the (middle_bb i15)), Num p, Num p, Num p))"
  using assms by (simp add: strategy_logic_def Let_def)

lemma direction_strategy_logic:
  "direction (strategy_logic i15 i1h p) \<in> {''BUY'', ''SELL'', ''HOLD''}"
  by (cases "signals i15 i1h p") (simp add: strategy_logic_cases direction_def)

lemma multipliers: "ATR_SL_MULTIPLIER = 0.8" "ATR_TP_MULTIPLIER = 1.2"
  by (simp_all add: ATR_SL_MULTIPLIER_def ATR_TP_MULTIPLIER_def RISK_REWARD_RATIO_def)

section \<open>Evaluation of the examples\<close>

lemma last_valid_value_padded:
  "Some NaN \<noteq> v \<Longrightarrow> last_valid_value (Some (padded v)) = v"
  by (cases v)
     (auto simp: last_valid_value_def padded_def numeral_2_eq_2 numeral_3_eq_3
        elim: isnan.elims)

lemma calculate_indicators_table:
  assumes "50 \<le> length cs"
    and ok: "\<forall>c. Some NaN \<notin> {ema_fast (tab c), ema_slow (tab c), rsi (tab c), macd (tab c),
      macd_signal (tab c), macd_hist (tab c), atr (tab c), upper_bb (tab c),
      middle_bb (tab c), lower_bb (tab c)}"
  shows "calculate_indicators (table_talib tab) cs =
     Inr (Some ((tab (Num (close (last cs)))) \<lparr> price := Some (Num (close (last cs))) \<rparr>))"
proof -
  have ne: "cs \<noteq> []" using assms by auto
  have l: "last (map (\<lambda>c. Num (close c)) cs) = Num (close (last cs))"
    using ne by (simp add: last_map)
  show ?thesis
    using assms(1) ok ne
    by (cases "tab (Num (close (last cs)))")
       (simp add: calculate_indicators_def table_talib_def and_then_def Let_def l
        last_valid_value_padded EMA_FAST_def EMA_SLOW_def)
qed

lemma calc_bull:
  "calculate_indicators bull_talib (candles_15m bull_feed) = Inr (Some bull_15m)"
  "calculate_indicators bull_talib (candles_1h bull_feed) = Inr (Some bull_1h)"
  unfolding bull_talib_def
  by (subst calculate_indicators_table;
      simp add: bull_feed_def bull_15m_def bull_1h_def flat_candle_def)+

lemma calc_bear:
  "calculate_indicators bear_talib (candles_15m bear_feed) = Inr (Some bear_15m)"
  "calculate_indicators bear_talib (candles_1h bear_feed) = Inr (Some bear_1h)"
  unfolding bear_talib_def
  by (subst calculate_indicators_table;
      simp add: bear_feed_def bear_15m_def bear_1h_def flat_candle_def)+

lemma calc_tie:
  "calculate_indicators tie_talib (candles_15m tie_feed) = Inr (Some tie_15m)"
  "calculate_indicators tie_talib (candles_1h tie_feed) = Inr (Some bull_1h)"
  unfolding tie_talib_def
  by (subst calculate_indicators_table;
      simp add: tie_feed_def bull_feed_def bear_15m_def bull_1h_def flat_candle_def
        tie_15m_def)+

lemma calc_norsi:
  "calculate_indicators norsi_talib (candles_15m bull_feed) = Inr (Some norsi_15m)"
  "calculate_indicators norsi_talib (candles_1h bull_feed) = Inr (Some bull_1h)"
  unfolding norsi_talib_def
  by (subst calculate_indicators_table;
      simp add: bull_feed_def bull_15m_def bull_1h_def flat_candle_def norsi_15m_def)+


lemma complete_examples:
  "\<not> any_none bull_15m" "\<not> any_none bull_1h" "\<not> any_none bear_15m" "\<not> any_none bear_1h"
  "\<not> any_none tie_15m"
  by (simp_all add: any_none_def bull_15m_def bull_1h_def bear_15m_def bear_1h_def tie_15m_def)

lemmas vote_defs = signals_def trend_analysis_def momentum_analysis_def macd_analysis_def
  price_action_def fgt_def RSI_OVERSOLD_def RSI_OVERBOUGHT_def

lemma signals_bull: "signals bull_15m bull_1h 1.2500 = (6, 0)"
  by (simp add: vote_defs bull_15m_def bull_1h_def)

lemma signals_bear: "signals bear_15m bear_1h 1.2800 = (0, 6)"
  by (simp add: vote_defs bear_15m_def bear_1h_def)

lemma signals_tie: "signals tie_15m bull_1h 1.2650 = (2, 2)"
  by (simp add: vote_defs bear_15m_def bull_1h_def tie_15m_def)

section \<open>The decision as a function of the votes\<close>

lemma trade_direction_complete:
  assumes "direction (generate_signal ta f) \<in> {''BUY'', ''SELL'', ''HOLD''}"
  shows "\<exists>i15 i1h p.
     calculate_indicators ta (candles_15m f) = Inr (Some i15) \<and>
     calculate_indicators ta (candles_1h f) = Inr (Some i1h) \<and>
     \<not> any_none i15 \<and> \<not> any_none i1h \<and> current_price f = Some p \<and>
     generate_signal ta f = strategy_logic i15 i1h p"
  using assms
  by (auto simp: generate_signal_def try_body_def and_then_def direction_def
      split: if_splits sum.splits option.splits)

lemma levels_strategy_logic:
  assumes "signals i15 i1h p = (b, s)" and "atr i15 = Some a"
  shows "levels (strategy_logic i15 i1h p) =
     (if b > s \<and> confidence (b, s) > 30 then
        (Num p, fadd (Num p) (fmul a (Num 1.2)), fsub (Num p) (fmul a (Num 0.8)))
      else if s > b \<and> confidence (b, s) > 30 then
        (Num p, fsub (Num p) (fmul a (Num 1.2)), fadd (Num p) (fmul a (Num 0.8)))
      else (Num p, Num p, Num p))"
  using assms
  by (simp add: strategy_logic_cases levels_def entry_price_def tp_price_def sl_price_def
      multipliers)

lemma direction_of_strategy_logic:
  assumes "signals i15 i1h p = (b, s)"
  shows "direction (strategy_logic i15 i1h p) =
     (if b > s \<and> confidence (b, s) > 30 then ''BUY''
      else if s > b \<and> confidence (b, s) > 30 then ''SELL'' else ''HOLD'')"
  using assms by (simp add: strategy_logic_cases direction_def)

lemma levels_tuple: "levels (d, s, p, tp, sl) = (p, tp, sl)"
  by (simp add: levels_def entry_price_def tp_price_def sl_price_def)

lemma direction_tuple: "direction (d, s, p, tp, sl) = d"
  by (simp add: direction_def)

lemma generate_signal_direction:
  "direction (generate_signal ta f) \<in> {''BUY'', ''SELL'', ''HOLD'', ''ANALYZING'', ''ERROR''}"
proof (cases "try_body ta f")
  case (Inl e)
  then show ?thesis by (simp add: generate_signal_def direction_tuple)
next
  case (Inr r)
  then have "direction r \<in> {''BUY'', ''SELL'', ''HOLD'', ''ANALYZING'', ''ERROR''}"
    using direction_strategy_logic
    by (auto simp: try_body_def and_then_def direction_tuple
        split: if_splits sum.splits option.splits)
  with Inr show ?thesis by (simp add: generate_signal_def)
qed

section \<open>Results\<close>

subsection \<open>Indicator calculation\<close>

text \<open>
  C3. For every candle list with fewer than 50 entries, and whatever the indicator library
  would do, \<open>calculate_indicators\<close> returns \<open>None\<close> for the whole snapshot: it raises
  nothing and returns no partial dictionary.
\<close>

theorem calculate_indicators_unavailable:
  "length candles < 50 \<Longrightarrow> calculate_indicators ta candles = Inr None"
  unfolding calculate_indicators_def by simp

theorem calculate_indicators_unavailable_witness:
  "length (candles_15m short_feed) < 50 \<and>
   calculate_indicators raising_talib (candles_15m short_feed) = Inr None"
  using calculate_indicators_unavailable [of "candles_15m short_feed" raising_talib]
  by (simp add: short_feed_def)

text \<open>
  C4. \<open>last_valid_value\<close> returns \<open>None\<close> exactly when the series is absent, empty or
  \<open>NaN\<close> throughout. Otherwise it returns the entry at the greatest index whose entry is
  not \<open>NaN\<close>: every later entry is \<open>NaN\<close>. It never returns \<open>NaN\<close>.
\<close>

theorem last_valid_value_last_defined:
  "(last_valid_value arr = None \<longleftrightarrow>
      arr = None \<or> (\<exists>xs. arr = Some xs \<and> (xs = [] \<or> (\<forall>x \<in> set xs. isnan x)))) \<and>
   (\<forall>v. last_valid_value arr = Some v \<longrightarrow>
      (\<exists>xs i. arr = Some xs \<and> i < length xs \<and> xs ! i = v \<and> \<not> isnan v \<and>
         (\<forall>j. i < j \<and> j < length xs \<longrightarrow> isnan (xs ! j)))) \<and>
   last_valid_value arr \<noteq> Some NaN"
proof (cases arr)
  case None
  then show ?thesis by (simp add: last_valid_value_def)
next
  case (Some xs)
  have none: "last_valid_value arr = None \<longleftrightarrow> xs = [] \<or> (\<forall>x \<in> set xs. isnan x)"
    using Some by (auto simp: last_valid_value_def scan_back_None all_set_conv_all_nth)
  have some: "\<exists>i. i < length xs \<and> xs ! i = v \<and> \<not> isnan v \<and>
         (\<forall>j. i < j \<and> j < length xs \<longrightarrow> isnan (xs ! j))"
    if "last_valid_value arr = Some v" for v
  proof -
    from that Some have "scan_back xs (length xs) = Some v"
      by (simp add: last_valid_value_def split: if_splits)
    from scan_back_Some[OF this] show ?thesis by blast
  qed
  have "last_valid_value arr \<noteq> Some NaN"
    using some[of NaN] by auto
  with none some Some show ?thesis by auto
qed

theorem last_valid_value_last_defined_witness:
  "last_valid_value (Some [NaN, Num 1, Num 2, NaN]) = Some (Num 2) \<and>
   [NaN, Num 1, Num 2, NaN] ! 2 = Num 2 \<and> isnan ([NaN, Num 1, Num 2, NaN] ! 3) \<and>
   last_valid_value (Some [NaN, NaN]) = None \<and>
   last_valid_value (Some []) = None \<and> last_valid_value None = None"
  using last_valid_value_last_defined [of "Some [NaN, Num 1, Num 2, NaN]"]
    last_valid_value_last_defined [of "Some [NaN, NaN]"]
    last_valid_value_last_defined [of "Some []"]
    last_valid_value_last_defined [of None]
  by (simp add: last_valid_value_def numeral_2_eq_2 numeral_3_eq_3 eval_nat_numeral)

subsection \<open>Decisions\<close>

text \<open>
  C1. For every pair of complete snapshots and every current price: if the bullish votes
  exceed the bearish votes and the confidence exceeds 30, \<open>generate_signal\<close> returns BUY,
  the entry price is the current price, the stop loss is the price minus 0.8 times the ATR of
  the 15-minute chart, and the take profit is the price plus 1.2 times that ATR, where 1.2 is
  the product of the stop-loss multiplier 0.8 and the risk-reward ratio 1.5.
\<close>

theorem buy_signal_levels:
  assumes "calculate_indicators ta (candles_15m f) = Inr (Some i15)"
    and "calculate_indicators ta (candles_1h f) = Inr (Some i1h)"
    and "\<not> any_none i15" and "\<not> any_none i1h"
    and "current_price f = Some p"
    and "signals i15 i1h p = (bullish, bearish)"
    and "bearish < bullish" and "30 < confidence (bullish, bearish)"
    and "atr i15 = Some a"
  shows "direction (generate_signal ta f) = ''BUY'' \<and>
    entry_price (generate_signal ta f) = Num p \<and>
    sl_price (generate_signal ta f) = fsub (Num p) (fmul a (Num 0.8)) \<and>
    tp_price (generate_signal ta f) = fadd (Num p) (fmul a (Num 1.2)) \<and>
    ATR_SL_MULTIPLIER = 0.8 \<and> ATR_TP_MULTIPLIER = 0.8 * 1.5 \<and> ATR_TP_MULTIPLIER = 1.2"
proof -
  have g: "generate_signal ta f = strategy_logic i15 i1h p"
    using assms(1-5) by (rule generate_signal_complete)
  have "levels (generate_signal ta f) =
      (Num p, fadd (Num p) (fmul a (Num 1.2)), fsub (Num p) (fmul a (Num 0.8)))"
    unfolding g using assms(7,8) by (simp add: levels_strategy_logic[OF assms(6,9)])
  moreover have "direction (generate_signal ta f) = ''BUY''"
    unfolding g using assms(7,8) by (simp add: direction_of_strategy_logic[OF assms(6)])
  ultimately show ?thesis
    by (simp add: levels_def multipliers)
qed

theorem buy_signal_levels_witness:
  "signals bull_15m bull_1h 1.25 = (6, 0) \<and> 30 < confidence (6, 0) \<and>
   direction (generate_signal bull_talib bull_feed) = ''BUY'' \<and>
   entry_price (generate_signal bull_talib bull_feed) = Num 1.25 \<and>
   sl_price (generate_signal bull_talib bull_feed) = Num 1.2484 \<and>
   tp_price (generate_signal bull_talib bull_feed) = Num 1.2524"
proof -
  have p: "current_price bull_feed = Some 1.25" by (simp add: bull_feed_def)
  have a: "atr bull_15m = Some (Num 0.002)" by (simp add: bull_15m_def)
  have v: "signals bull_15m bull_1h 1.25 = (6, 0)" using signals_bull by simp
  have c: "30 < confidence (6, 0)" by (simp add: confidence_def)
  show ?thesis
    using buy_signal_levels [OF calc_bull(1) calc_bull(2) complete_examples(1)
        complete_examples(2) p v _ c a] v c
    by simp
qed

text \<open>
  C7. For every pair of complete snapshots and every current price: if neither the condition
  for BUY nor the condition for SELL holds, \<open>generate_signal\<close> returns HOLD, and the entry
  price, the take profit and the stop loss are all the current price.
\<close>

theorem hold_signal_levels:
  assumes "calculate_indicators ta (candles_15m f) = Inr (Some i15)"
    and "calculate_indicators ta (candles_1h f) = Inr (Some i1h)"
    and "\<not> any_none i15" and "\<not> any_none i1h"
    and "current_price f = Some p"
    and "signals i15 i1h p = (bullish, bearish)"
    and "\<not> (bearish < bullish \<and> 30 < confidence (bullish, bearish))"
    and "\<not> (bullish < bearish \<and> 30 < confidence (bullish, bearish))"
  shows "direction (generate_signal ta f) = ''HOLD'' \<and>
    entry_price (generate_signal ta f) = Num p \<and>
    tp_price (generate_signal ta f) = Num p \<and>
    sl_price (generate_signal ta f) = Num p"
proof -
  have g: "generate_signal ta f = strategy_logic i15 i1h p"
    using assms(1-5) by (rule generate_signal_complete)
  show ?thesis
    unfolding g using assms(7,8)
    by (auto simp: strategy_logic_cases[OF assms(6)] direction_def entry_price_def
        tp_price_def sl_price_def)
qed

theorem hold_signal_levels_witness:
  "signals tie_15m bull_1h 1.265 = (2, 2) \<and> \<not> 30 < confidence (2, 2) \<and>
   direction (generate_signal tie_talib tie_feed) = ''HOLD'' \<and>
   entry_price (generate_signal tie_talib tie_feed) = Num 1.265 \<and>
   tp_price (generate_signal tie_talib tie_feed) = Num 1.265 \<and>
   sl_price (generate_signal tie_talib tie_feed) = Num 1.265"
proof -
  have p: "current_price tie_feed = Some 1.265" by (simp add: tie_feed_def)
  have v: "signals tie_15m bull_1h 1.265 = (2, 2)" using signals_tie by simp
  have c: "\<not> 30 < confidence (2, 2)" by (simp add: confidence_def)
  show ?thesis
    using hold_signal_levels [OF calc_tie(1) calc_tie(2) complete_examples(5)
        complete_examples(2) p v] v c
    by simp
qed



subsection \<open>Votes and confidence\<close>

text \<open>
  C2. For every vote count the engine produces, the confidence is the absolute difference of
  the two counts divided by their sum, times 100 (and 0 when the sum is 0); it lies between 0
  and 100; and when the two counts are equal the confidence is 0 and the direction returned is
  neither BUY nor SELL.
\<close>

theorem confidence_of_votes:
  assumes "calculate_indicators ta (candles_15m f) = Inr (Some i15)"
    and "calculate_indicators ta (candles_1h f) = Inr (Some i1h)"
    and "\<not> any_none i15" and "\<not> any_none i1h"
    and "current_price f = Some p"
    and "signals i15 i1h p = (bullish, bearish)"
  shows "confidence (bullish, bearish) =
           (if bullish + bearish = 0 then 0
            else \<bar>real_of_int bullish - real_of_int bearish\<bar> /
                 (real_of_int bullish + real_of_int bearish) * 100) \<and>
         0 \<le> confidence (bullish, bearish) \<and> confidence (bullish, bearish) \<le> 100 \<and>
         (bullish = bearish \<longrightarrow>
            confidence (bullish, bearish) = 0 \<and>
            direction (generate_signal ta f) \<noteq> ''BUY'' \<and>
            direction (generate_signal ta f) \<noteq> ''SELL'')"
proof -
  have nonneg: "0 \<le> bullish" "0 \<le> bearish"
    using signals_bounds[OF assms(6)] by simp_all
  have g: "generate_signal ta f = strategy_logic i15 i1h p"
    using assms(1-5) by (rule generate_signal_complete)
  have formula: "confidence (bullish, bearish) =
           (if bullish + bearish = 0 then 0
            else \<bar>real_of_int bullish - real_of_int bearish\<bar> /
                 (real_of_int bullish + real_of_int bearish) * 100)"
    by (simp add: confidence_def)
  have tie: "direction (generate_signal ta f) = ''HOLD''" if "bullish = bearish"
    unfolding g using that by (simp add: direction_of_strategy_logic[OF assms(6)])
  show ?thesis
    using formula confidence_range[OF nonneg] tie confidence_tie by auto
qed

theorem confidence_of_votes_witness:
  "signals tie_15m bull_1h 1.265 = (2, 2) \<and> confidence (2, 2) = 0 \<and>
   direction (generate_signal tie_talib tie_feed) \<noteq> ''BUY'' \<and>
   direction (generate_signal tie_talib tie_feed) \<noteq> ''SELL'' \<and>
   signals bull_15m bull_1h 1.25 = (6, 0) \<and> confidence (6, 0) = 100"
proof -
  have p: "current_price tie_feed = Some 1.265" "current_price bull_feed = Some 1.25"
    by (simp_all add: tie_feed_def bull_feed_def)
  have v: "signals tie_15m bull_1h 1.265 = (2, 2)" "signals bull_15m bull_1h 1.25 = (6, 0)"
    using signals_tie signals_bull by simp_all
  show ?thesis
    using confidence_of_votes [OF calc_tie(1) calc_tie(2) complete_examples(5)
        complete_examples(2) p(1) v(1)]
      confidence_of_votes [OF calc_bull(1) calc_bull(2) complete_examples(1)
        complete_examples(2) p(2) v(2)] v
    by simp
qed

text \<open>
  C10. For every pair of complete snapshots and every price, the trend block gives exactly
  three votes: one from the 15-minute chart and two from the hourly chart, each to the
  bullish side when the fast average is above the slow one and to the bearish side otherwise,
  so that equal averages count as bearish. The two counts therefore sum to a number between 3
  and 8, the sum is never 0, and the confidence is the quotient of the formula, whose divisor
  is not zero.
\<close>

theorem vote_total_bounds:
  assumes "\<not> any_none i15" and "\<not> any_none i1h"
    and "signals i15 i1h p = (bullish, bearish)"
  shows "trend_analysis i15 i1h (0, 0) =
           ((if fgt (the (ema_fast i15)) (the (ema_slow i15)) then 1 else 0) +
            (if fgt (the (ema_fast i1h)) (the (ema_slow i1h)) then 2 else 0),
            (if fgt (the (ema_fast i15)) (the (ema_slow i15)) then 0 else 1) +
            (if fgt (the (ema_fast i1h)) (the (ema_slow i1h)) then 0 else 2)) \<and>
         fst (trend_analysis i15 i1h (0, 0)) + snd (trend_analysis i15 i1h (0, 0)) = 3 \<and>
         (ema_fast i15 = ema_slow i15 \<longrightarrow>
            \<not> fgt (the (ema_fast i15)) (the (ema_slow i15))) \<and>
         (ema_fast i1h = ema_slow i1h \<longrightarrow>
            \<not> fgt (the (ema_fast i1h)) (the (ema_slow i1h))) \<and>
         3 \<le> bullish + bearish \<and> bullish + bearish \<le> 8 \<and> bullish + bearish \<noteq> 0 \<and>
         confidence (bullish, bearish) =
           real_of_int \<bar>bullish - bearish\<bar> / real_of_int (bullish + bearish) * 100"
proof -
  have t: "trend_analysis i15 i1h (0, 0) =
           ((if fgt (the (ema_fast i15)) (the (ema_slow i15)) then 1 else 0) +
            (if fgt (the (ema_fast i1h)) (the (ema_slow i1h)) then 2 else 0),
            (if fgt (the (ema_fast i15)) (the (ema_slow i15)) then 0 else 1) +
            (if fgt (the (ema_fast i1h)) (the (ema_slow i1h)) then 0 else 2))"
    by (simp add: trend_analysis_def)
  have three: "fst (trend_analysis i15 i1h (0, 0)) + snd (trend_analysis i15 i1h (0, 0)) = 3"
    unfolding t by simp
  have eq: "\<not> fgt (the (ema_fast i15)) (the (ema_slow i15))" if "ema_fast i15 = ema_slow i15"
    using that by (simp add: fgt_irrefl)
  have eq': "\<not> fgt (the (ema_fast i1h)) (the (ema_slow i1h))" if "ema_fast i1h = ema_slow i1h"
    using that by (simp add: fgt_irrefl)
  have b: "3 \<le> bullish + bearish" "bullish + bearish \<le> 8"
    using signals_bounds[OF assms(3)] by simp_all
  then have nz: "bullish + bearish \<noteq> 0" by simp
  then have c: "confidence (bullish, bearish) =
           real_of_int \<bar>bullish - bearish\<bar> / real_of_int (bullish + bearish) * 100"
    by (simp add: confidence_def)
  show ?thesis using t three eq eq' b nz c by blast
qed

theorem vote_total_bounds_witness:
  "\<not> any_none bull_15m \<and> \<not> any_none bull_1h \<and>
   signals bull_15m bull_1h 1.25 = (6, 0) \<and>
   trend_analysis bull_15m bull_1h (0, 0) = (3, 0) \<and>
   ema_fast flat_15m = ema_slow flat_15m \<and> ema_fast flat_1h = ema_slow flat_1h \<and>
   trend_analysis flat_15m flat_1h (0, 0) = (0, 3) \<and>
   confidence (6, 0) = 100"
proof -
  have v: "signals bull_15m bull_1h 1.25 = (6, 0)" using signals_bull by simp
  have c: "\<not> any_none flat_15m" "\<not> any_none flat_1h"
    by (simp_all add: any_none_def flat_15m_def flat_1h_def bull_15m_def bull_1h_def)
  obtain b s where w: "signals flat_15m flat_1h 1.25 = (b, s)" by fastforce
  show ?thesis
    using vote_total_bounds [OF complete_examples(1) complete_examples(2) v]
      vote_total_bounds [OF c w] complete_examples(1,2) v
    by (simp add: flat_15m_def flat_1h_def bull_15m_def bull_1h_def fgt_def)
qed

subsection \<open>Determinism\<close>



subsection \<open>Failures\<close>

text \<open>
  C5, as stated, fails. With ten candles on each chart and a provider that has no price, the
  engine returns ANALYZING, not ERROR: it tests the snapshots before it asks for the price.
\<close>

theorem no_price_not_error_counterexample:
  "current_price short_feed = None \<and>
   direction (generate_signal bull_talib short_feed) = ''ANALYZING'' \<and>
   direction (generate_signal bull_talib short_feed) \<noteq> ''ERROR''"
  by (simp add: short_feed_def generate_signal_def try_body_def and_then_def
      calculate_indicators_def direction_tuple)

text \<open>
  C5, amended. Whenever the provider returns no candles for either chart, the engine returns
  ERROR with entry price, take profit and stop loss 0. It does so too when both charts gave a
  snapshot and the provider returns no price, and when a call inside the \<open>try\<close> block
  raises an exception: the handler turns the exception into this result. So no exception
  leaves \<open>generate_signal\<close>, and the direction of every result is one of BUY, SELL, HOLD,
  ANALYZING and ERROR.
\<close>

theorem error_on_missing_data:
  "(candles_15m f = [] \<or> candles_1h f = [] \<longrightarrow>
      direction (generate_signal ta f) = ''ERROR'' \<and>
      levels (generate_signal ta f) = (Num 0, Num 0, Num 0)) \<and>
   (calculate_indicators ta (candles_15m f) = Inr (Some i15) \<and>
    calculate_indicators ta (candles_1h f) = Inr (Some i1h) \<and> current_price f = None \<longrightarrow>
      direction (generate_signal ta f) = ''ERROR'' \<and>
      levels (generate_signal ta f) = (Num 0, Num 0, Num 0)) \<and>
   (try_body ta f = Inl e \<longrightarrow>
      generate_signal ta f = (''ERROR'', Message (''System error: '' @ e), Num 0, Num 0, Num 0) \<and>
      direction (generate_signal ta f) = ''ERROR'' \<and>
      levels (generate_signal ta f) = (Num 0, Num 0, Num 0)) \<and>
   direction (generate_signal ta f) \<in> {''BUY'', ''SELL'', ''HOLD'', ''ANALYZING'', ''ERROR''}"
proof -
  have a: "direction (generate_signal ta f) = ''ERROR'' \<and>
      levels (generate_signal ta f) = (Num 0, Num 0, Num 0)"
    if "candles_15m f = [] \<or> candles_1h f = []"
    using that by (auto simp: generate_signal_def try_body_def direction_tuple levels_tuple)
  have b: "direction (generate_signal ta f) = ''ERROR'' \<and>
      levels (generate_signal ta f) = (Num 0, Num 0, Num 0)"
    if h: "calculate_indicators ta (candles_15m f) = Inr (Some i15) \<and>
      calculate_indicators ta (candles_1h f) = Inr (Some i1h) \<and> current_price f = None"
  proof -
    have "candles_15m f \<noteq> []" "candles_1h f \<noteq> []"
      using h calculate_indicators_Some by fastforce+
    then show ?thesis
      using h by (simp add: generate_signal_def try_body_def and_then_def direction_tuple
          levels_tuple)
  qed
  have c: "generate_signal ta f = (''ERROR'', Message (''System error: '' @ e), Num 0, Num 0, Num 0) \<and>
      direction (generate_signal ta f) = ''ERROR'' \<and>
      levels (generate_signal ta f) = (Num 0, Num 0, Num 0)"
    if "try_body ta f = Inl e"
    using that by (simp add: generate_signal_def direction_tuple levels_tuple)
  show ?thesis using a b c generate_signal_direction by blast
qed

theorem error_on_missing_data_witness:
  "candles_15m empty_feed = [] \<and>
   direction (generate_signal bull_talib empty_feed) = ''ERROR'' \<and>
   levels (generate_signal bull_talib empty_feed) = (Num 0, Num 0, Num 0) \<and>
   current_price noprice_feed = None \<and>
   direction (generate_signal bull_talib noprice_feed) = ''ERROR'' \<and>
   levels (generate_signal bull_talib noprice_feed) = (Num 0, Num 0, Num 0) \<and>
   try_body raising_talib bull_feed = Inl ''inputs are all NaN'' \<and>
   generate_signal raising_talib bull_feed =
     (''ERROR'', Message ''System error: inputs are all NaN'', Num 0, Num 0, Num 0)"
proof -
  have e: "candles_15m empty_feed = []" by (simp add: empty_feed_def)
  have n: "calculate_indicators bull_talib (candles_15m noprice_feed) = Inr (Some bull_15m)"
    "calculate_indicators bull_talib (candles_1h noprice_feed) = Inr (Some bull_1h)"
    "current_price noprice_feed = None"
    using calc_bull by (simp_all add: noprice_feed_def)
  have r: "try_body raising_talib bull_feed = Inl ''inputs are all NaN''"
    by (simp add: try_body_def and_then_def calculate_indicators_def raising_talib_def
        bull_feed_def)
  show ?thesis
    using error_on_missing_data [of empty_feed bull_talib bull_15m bull_1h "''x''"]
      error_on_missing_data [of noprice_feed bull_talib bull_15m bull_1h "''x''"]
      error_on_missing_data [of bull_feed raising_talib bull_15m bull_1h "''inputs are all NaN''"]
      e n r
    by simp
qed

text \<open>
  C6, as stated, fails. With fifty candles on each chart, an RSI series of the 15-minute chart
  that is \<open>NaN\<close> throughout and a provider that has no price, the snapshot has an undefined
  field and the engine returns ERROR, not ANALYZING: it asks for the price before it tests the
  fields.
\<close>

theorem undefined_field_not_analyzing_counterexample:
  "calculate_indicators norsi_talib (candles_15m noprice_feed) = Inr (Some norsi_15m) \<and>
   rsi norsi_15m = None \<and> any_none norsi_15m \<and>
   direction (generate_signal norsi_talib noprice_feed) = ''ERROR'' \<and>
   direction (generate_signal norsi_talib noprice_feed) \<noteq> ''ANALYZING''"
proof -
  have c: "calculate_indicators norsi_talib (candles_15m noprice_feed) = Inr (Some norsi_15m)"
    "calculate_indicators norsi_talib (candles_1h noprice_feed) = Inr (Some bull_1h)"
    using calc_norsi by (simp_all add: noprice_feed_def)
  have ne: "candles_15m noprice_feed \<noteq> []" "candles_1h noprice_feed \<noteq> []"
    using c[THEN calculate_indicators_Some] by auto
  have "generate_signal norsi_talib noprice_feed =
      (''ERROR'', Message ''Failed to fetch current price'', Num 0, Num 0, Num 0)"
    using ne c by (simp add: generate_signal_def try_body_def and_then_def noprice_feed_def)
  then show ?thesis
    using c(1) by (simp add: direction_tuple norsi_15m_def any_none_def)
qed

text \<open>
  C6, amended. Whenever the indicator library raises nothing and the snapshot of either chart
  is unavailable, the engine returns ANALYZING or ERROR, never BUY, SELL or HOLD. It returns
  ANALYZING, with the three prices 0, when neither candle list is empty and a chart has fewer
  than 50 candles. It returns ANALYZING, with the current price as entry price and 0 as take
  profit and stop loss, when both charts have at least 50 candles, a field of a snapshot is
  undefined and the provider returns a price. ANALYZING is not ERROR.
\<close>

theorem analyzing_on_unavailable_snapshot:
  assumes "calculate_indicators ta (candles_15m f) = Inr r15"
    and "calculate_indicators ta (candles_1h f) = Inr r1h"
    and "unavailable r15 \<or> unavailable r1h"
  shows "direction (generate_signal ta f) \<in> {''ANALYZING'', ''ERROR''} \<and>
    direction (generate_signal ta f) \<notin> {''BUY'', ''SELL'', ''HOLD''} \<and>
    (candles_15m f \<noteq> [] \<and> candles_1h f \<noteq> [] \<and>
     (length (candles_15m f) < 50 \<or> length (candles_1h f) < 50) \<longrightarrow>
       direction (generate_signal ta f) = ''ANALYZING'' \<and>
       levels (generate_signal ta f) = (Num 0, Num 0, Num 0)) \<and>
    (\<forall>p. 50 \<le> length (candles_15m f) \<and> 50 \<le> length (candles_1h f) \<and>
         current_price f = Some p \<longrightarrow>
       direction (generate_signal ta f) = ''ANALYZING'' \<and>
       levels (generate_signal ta f) = (Num p, Num 0, Num 0)) \<and>
    ''ANALYZING'' \<noteq> ''ERROR''"
proof -
  have short: "direction (generate_signal ta f) = ''ANALYZING'' \<and>
       levels (generate_signal ta f) = (Num 0, Num 0, Num 0)"
    if h: "candles_15m f \<noteq> [] \<and> candles_1h f \<noteq> [] \<and>
     (length (candles_15m f) < 50 \<or> length (candles_1h f) < 50)"
  proof -
    from h have "r15 = None \<or> r1h = None"
      using assms(1,2) calculate_indicators_short[of "candles_15m f" ta]
        calculate_indicators_short[of "candles_1h f" ta] by auto
    then show ?thesis
      using h assms(1,2)
      by (auto simp: generate_signal_def try_body_def and_then_def direction_tuple levels_tuple)
  qed
  have field: "direction (generate_signal ta f) = ''ANALYZING'' \<and>
       levels (generate_signal ta f) = (Num p, Num 0, Num 0)"
    if h: "50 \<le> length (candles_15m f) \<and> 50 \<le> length (candles_1h f) \<and>
         current_price f = Some p" for p
  proof -
    have ne: "candles_15m f \<noteq> []" "candles_1h f \<noteq> []" using h by auto
    have "r15 \<noteq> None" "r1h \<noteq> None"
      using h assms(1,2) by (auto simp: calculate_indicators_def and_then_def Let_def
          split: sum.splits prod.splits)
    then obtain i15 i1h where s: "r15 = Some i15" "r1h = Some i1h" by auto
    with assms(3) have "any_none i15 \<or> any_none i1h" by (simp add: unavailable_def)
    then show ?thesis
      using ne h s assms(1,2)
      by (auto simp: generate_signal_def try_body_def and_then_def direction_tuple levels_tuple)
  qed
  have notrade: "direction (generate_signal ta f) \<notin> {''BUY'', ''SELL'', ''HOLD''}"
  proof
    assume "direction (generate_signal ta f) \<in> {''BUY'', ''SELL'', ''HOLD''}"
    from trade_direction_complete[OF this] obtain i15 i1h where
      "calculate_indicators ta (candles_15m f) = Inr (Some i15)"
      "calculate_indicators ta (candles_1h f) = Inr (Some i1h)"
      "\<not> any_none i15" "\<not> any_none i1h" by blast
    with assms show False by (auto simp: unavailable_def)
  qed
  with generate_signal_direction[of ta f]
  have "direction (generate_signal ta f) \<in> {''ANALYZING'', ''ERROR''}" by auto
  with notrade short field show ?thesis by simp
qed

theorem analyzing_on_unavailable_snapshot_witness:
  "unavailable None \<and> candles_15m short_feed \<noteq> [] \<and> candles_1h short_feed \<noteq> [] \<and>
   length (candles_15m short_feed) < 50 \<and>
   direction (generate_signal bull_talib short_feed) = ''ANALYZING'' \<and>
   levels (generate_signal bull_talib short_feed) = (Num 0, Num 0, Num 0) \<and>
   unavailable (Some norsi_15m) \<and> current_price bull_feed = Some 1.25 \<and>
   direction (generate_signal norsi_talib bull_feed) = ''ANALYZING'' \<and>
   levels (generate_signal norsi_talib bull_feed) = (Num 1.25, Num 0, Num 0) \<and>
   direction (generate_signal norsi_talib noprice_feed) \<in> {''ANALYZING'', ''ERROR''}"
proof -
  have s: "calculate_indicators bull_talib (candles_15m short_feed) = Inr None"
    "calculate_indicators bull_talib (candles_1h short_feed) = Inr None"
    by (simp_all add: calculate_indicators_def short_feed_def)
  have u: "unavailable None" "unavailable (Some norsi_15m)"
    by (simp_all add: unavailable_def any_none_def norsi_15m_def)
  have l: "candles_15m short_feed \<noteq> []" "candles_1h short_feed \<noteq> []"
    "length (candles_15m short_feed) < 50"
    "50 \<le> length (candles_15m bull_feed)" "50 \<le> length (candles_1h bull_feed)"
    "current_price bull_feed = Some 1.25"
    by (simp_all add: short_feed_def bull_feed_def)
  have n: "calculate_indicators norsi_talib (candles_15m noprice_feed) = Inr (Some norsi_15m)"
    "calculate_indicators norsi_talib (candles_1h noprice_feed) = Inr (Some bull_1h)"
    using calc_norsi by (simp_all add: noprice_feed_def)
  have "\<forall>p. 50 \<le> length (candles_15m bull_feed) \<and> 50 \<le> length (candles_1h bull_feed) \<and>
         current_price bull_feed = Some p \<longrightarrow>
       direction (generate_signal norsi_talib bull_feed) = ''ANALYZING'' \<and>
       levels (generate_signal norsi_talib bull_feed) = (Num p, Num 0, Num 0)"
    using analyzing_on_unavailable_snapshot [OF calc_norsi(1) calc_norsi(2)] u(2) by blast
  then have f: "direction (generate_signal norsi_talib bull_feed) = ''ANALYZING'' \<and>
       levels (generate_signal norsi_talib bull_feed) = (Num 1.25, Num 0, Num 0)"
    using l(4,5,6) by blast
  show ?thesis
    using analyzing_on_unavailable_snapshot [OF s(1) s(2)]
      analyzing_on_unavailable_snapshot [OF n(1) n(2)] u l f
    by simp
qed

subsection \<open>The mirrored decision\<close>

text \<open>
  For every pair of complete snapshots and every current price: if the bearish votes exceed
  the bullish votes and the confidence exceeds 30, \<open>generate_signal\<close> returns SELL, the
  entry price is the current price, the stop loss is the price plus 0.8 times the ATR of the
  15-minute chart and the take profit is the price minus 1.2 times that ATR.
\<close>

theorem sell_signal_levels:
  assumes "calculate_indicators ta (candles_15m f) = Inr (Some i15)"
    and "calculate_indicators ta (candles_1h f) = Inr (Some i1h)"
    and "\<not> any_none i15" and "\<not> any_none i1h"
    and "current_price f = Some p"
    and "signals i15 i1h p = (bullish, bearish)"
    and "bullish < bearish" and "30 < confidence (bullish, bearish)"
    and "atr i15 = Some a"
  shows "direction (generate_signal ta f) = ''SELL'' \<and>
    entry_price (generate_signal ta f) = Num p \<and>
    sl_price (generate_signal ta f) = fadd (Num p) (fmul a (Num 0.8)) \<and>
    tp_price (generate_signal ta f) = fsub (Num p) (fmul a (Num 1.2))"
proof -
  have g: "generate_signal ta f = strategy_logic i15 i1h p"
    using assms(1-5) by (rule generate_signal_complete)
  have "levels (generate_signal ta f) =
      (Num p, fsub (Num p) (fmul a (Num 1.2)), fadd (Num p) (fmul a (Num 0.8)))"
    unfolding g using assms(7,8) by (simp add: levels_strategy_logic[OF assms(6,9)])
  moreover have "direction (generate_signal ta f) = ''SELL''"
    unfolding g using assms(7,8) by (simp add: direction_of_strategy_logic[OF assms(6)])
  ultimately show ?thesis
    by (simp add: levels_def)
qed

theorem sell_signal_levels_witness:
  "signals bear_15m bear_1h 1.28 = (0, 6) \<and> 30 < confidence (0, 6) \<and>
   direction (generate_signal bear_talib bear_feed) = ''SELL'' \<and>
   entry_price (generate_signal bear_talib bear_feed) = Num 1.28 \<and>
   sl_price (generate_signal bear_talib bear_feed) = Num 1.2816 \<and>
   tp_price (generate_signal bear_talib bear_feed) = Num 1.2776"
proof -
  have p: "current_price bear_feed = Some 1.28" by (simp add: bear_feed_def)
  have a: "atr bear_15m = Some (Num 0.002)" by (simp add: bear_15m_def)
  have v: "signals bear_15m bear_1h 1.28 = (0, 6)" using signals_bear by simp
  have c: "30 < confidence (0, 6)" by (simp add: confidence_def)
  show ?thesis
    using sell_signal_levels [OF calc_bear(1) calc_bear(2) complete_examples(3)
        complete_examples(4) p v _ c a] v c
    by simp
qed

end
